theory Spec2Isabelle
  imports Main "HOL-Library.Word"
begin

section \<open>The declarations of occ\_rsa\_key.h\<close>

text \<open>
  The header \<^verbatim>\<open>crypto/nrf_oberon/include/occ_rsa_key.h\<close> holds one macro, six
  structure types and six function prototypes. It holds no function body. The
  declarations are embedded as data, so that statements about members, element counts
  and parameters are statements about values:
  \<^item> a structure type is the list of its members in declaration order; every member
    of the header is an array of \<^verbatim>\<open>uint32_t\<close>, so a member is its name and its
    element count;
  \<^item> a prototype is its return type and the list of its parameters (type and name) in
    declaration order.
\<close>

type_synonym u8 = "8 word"
type_synonym u32 = "32 word"

text \<open>\<^verbatim>\<open>#define PUB_EXP 65537  // 2^16 + 1\<close>\<close>

definition PUB_EXP :: nat where
  "PUB_EXP = 65537"

type_synonym c_struct = "(string \<times> nat) list"

datatype c_type = C_int | C_const_uint8_ptr | C_struct_ptr string

record c_prototype =
  returns :: c_type
  params :: "(c_type \<times> string) list"

subsection \<open>Structure types\<close>

text \<open>\<^verbatim>\<open>typedef struct { uint32_t n[32]; /* e = 65537 */ } occ_rsa1024_pub_key;\<close>\<close>

definition occ_rsa1024_pub_key :: c_struct where
  "occ_rsa1024_pub_key = [(''n'', 32)]"

text \<open>\<^verbatim>\<open>typedef struct { uint32_t n[32]; uint32_t d[32]; } occ_rsa1024_key;\<close>\<close>

definition occ_rsa1024_key :: c_struct where
  "occ_rsa1024_key = [(''n'', 32), (''d'', 32)]"

text \<open>
  \<^verbatim>\<open>typedef struct {
    uint32_t n[32];
    uint32_t p[16], q[16];   // primes, p*q = n
    uint32_t dp[16], dq[16]; // d mod (p-1), d mod (q-1)
    uint32_t qinv[16];       // 1/q mod p
  } occ_rsa1024_crt_key;\<close>
\<close>

definition occ_rsa1024_crt_key :: c_struct where
  "occ_rsa1024_crt_key =
     [(''n'', 32), (''p'', 16), (''q'', 16), (''dp'', 16), (''dq'', 16), (''qinv'', 16)]"

text \<open>\<^verbatim>\<open>typedef struct { uint32_t n[64]; /* e = 65537 */ } occ_rsa2048_pub_key;\<close>\<close>

definition occ_rsa2048_pub_key :: c_struct where
  "occ_rsa2048_pub_key = [(''n'', 64)]"

text \<open>\<^verbatim>\<open>typedef struct { uint32_t n[64]; uint32_t d[64]; } occ_rsa2048_key;\<close>\<close>

definition occ_rsa2048_key :: c_struct where
  "occ_rsa2048_key = [(''n'', 64), (''d'', 64)]"

text \<open>
  \<^verbatim>\<open>typedef struct {
    uint32_t n[64];
    uint32_t p[32], q[32];   // primes, p*q = n
    uint32_t dp[32], dq[32]; // d mod (p-1), d mod (q-1)
    uint32_t qinv[32];       // 1/q mod p
  } occ_rsa2048_crt_key;\<close>
\<close>

definition occ_rsa2048_crt_key :: c_struct where
  "occ_rsa2048_crt_key =
     [(''n'', 64), (''p'', 32), (''q'', 32), (''dp'', 32), (''dq'', 32), (''qinv'', 32)]"

definition key_structs :: "c_struct list" where
  "key_structs =
     [occ_rsa1024_pub_key, occ_rsa1024_key, occ_rsa1024_crt_key,
      occ_rsa2048_pub_key, occ_rsa2048_key, occ_rsa2048_crt_key]"

subsection \<open>Prototypes\<close>

text \<open>
  \<^verbatim>\<open>int occ_rsa1024_init_pub_key (occ_rsa1024_pub_key *k,
                                const uint8_t *n, int nlen);\<close>
\<close>

definition occ_rsa1024_init_pub_key :: c_prototype where
  "occ_rsa1024_init_pub_key =
     \<lparr>returns = C_int,
      params = [(C_struct_ptr ''occ_rsa1024_pub_key'', ''k''),
                (C_const_uint8_ptr, ''n''), (C_int, ''nlen'')]\<rparr>"

text \<open>
  \<^verbatim>\<open>int occ_rsa1024_init_key (occ_rsa1024_key *k,
                            const uint8_t *n, int nlen,
                            const uint8_t *d, int dlen);\<close>
\<close>

definition occ_rsa1024_init_key :: c_prototype where
  "occ_rsa1024_init_key =
     \<lparr>returns = C_int,
      params = [(C_struct_ptr ''occ_rsa1024_key'', ''k''),
                (C_const_uint8_ptr, ''n''), (C_int, ''nlen''),
                (C_const_uint8_ptr, ''d''), (C_int, ''dlen'')]\<rparr>"

text \<open>
  \<^verbatim>\<open>int occ_rsa1024_init_crt_key (occ_rsa1024_crt_key *k,
                                const uint8_t *p,    int plen,
                                const uint8_t *q,    int qlen,
                                const uint8_t *dp,   int dplen,
                                const uint8_t *dq,   int dqlen,
                                const uint8_t *qinv, int qilen);\<close>
\<close>

definition occ_rsa1024_init_crt_key :: c_prototype where
  "occ_rsa1024_init_crt_key =
     \<lparr>returns = C_int,
      params = [(C_struct_ptr ''occ_rsa1024_crt_key'', ''k''),
                (C_const_uint8_ptr, ''p''), (C_int, ''plen''),
                (C_const_uint8_ptr, ''q''), (C_int, ''qlen''),
                (C_const_uint8_ptr, ''dp''), (C_int, ''dplen''),
                (C_const_uint8_ptr, ''dq''), (C_int, ''dqlen''),
                (C_const_uint8_ptr, ''qinv''), (C_int, ''qilen'')]\<rparr>"

text \<open>The 2048 bit prototypes repeat the 1024 bit ones over the 2048 bit structures.\<close>

definition occ_rsa2048_init_pub_key :: c_prototype where
  "occ_rsa2048_init_pub_key =
     \<lparr>returns = C_int,
      params = [(C_struct_ptr ''occ_rsa2048_pub_key'', ''k''),
                (C_const_uint8_ptr, ''n''), (C_int, ''nlen'')]\<rparr>"

definition occ_rsa2048_init_key :: c_prototype where
  "occ_rsa2048_init_key =
     \<lparr>returns = C_int,
      params = [(C_struct_ptr ''occ_rsa2048_key'', ''k''),
                (C_const_uint8_ptr, ''n''), (C_int, ''nlen''),
                (C_const_uint8_ptr, ''d''), (C_int, ''dlen'')]\<rparr>"

definition occ_rsa2048_init_crt_key :: c_prototype where
  "occ_rsa2048_init_crt_key =
     \<lparr>returns = C_int,
      params = [(C_struct_ptr ''occ_rsa2048_crt_key'', ''k''),
                (C_const_uint8_ptr, ''p''), (C_int, ''plen''),
                (C_const_uint8_ptr, ''q''), (C_int, ''qlen''),
                (C_const_uint8_ptr, ''dp''), (C_int, ''dplen''),
                (C_const_uint8_ptr, ''dq''), (C_int, ''dqlen''),
                (C_const_uint8_ptr, ''qinv''), (C_int, ''qilen'')]\<rparr>"

definition entry_points :: "c_prototype list" where
  "entry_points =
     [occ_rsa1024_init_pub_key, occ_rsa1024_init_key, occ_rsa1024_init_crt_key,
      occ_rsa2048_init_pub_key, occ_rsa2048_init_key, occ_rsa2048_init_crt_key]"

subsection \<open>Reading a declaration\<close>

definition member_names :: "c_struct \<Rightarrow> string list" where
  "member_names s = map fst s"

text \<open>The element count of a member, \<open>None\<close> when the structure has no such member.\<close>

definition member_words :: "c_struct \<Rightarrow> string \<Rightarrow> nat option" where
  "member_words s m = map_of s m"

text \<open>The width of a member in bits: 32 for each \<^verbatim>\<open>uint32_t\<close> element.\<close>

definition member_bits :: "c_struct \<Rightarrow> string \<Rightarrow> nat option" where
  "member_bits s m = map_option (\<lambda>w. 32 * w) (member_words s m)"

definition sizeof_words :: "c_struct \<Rightarrow> nat" where
  "sizeof_words s = sum_list (map snd s)"

definition param_names :: "c_prototype \<Rightarrow> string list" where
  "param_names f = map snd (params f)"

text \<open>The byte buffers a prototype takes: its \<^verbatim>\<open>const uint8_t *\<close> parameters.\<close>

definition buffer_params :: "c_prototype \<Rightarrow> string list" where
  "buffer_params f = map snd (filter (\<lambda>p. fst p = C_const_uint8_ptr) (params f))"

text \<open>
  The members of a structure for which the entry point that fills it takes no buffer of
  the same name.
\<close>

definition unsupplied_members :: "c_struct \<Rightarrow> c_prototype \<Rightarrow> string list" where
  "unsupplied_members s f = filter (\<lambda>m. m \<notin> set (buffer_params f)) (member_names s)"

text \<open>
  The layout of a CRT secret key as section 6 of the specification words it, for
  comparison with the header: two primes, two CRT exponents and the coefficient, each of
  \<open>hw\<close> words, and nothing else.
\<close>

definition spec_crt_key :: "nat \<Rightarrow> c_struct" where
  "spec_crt_key hw = [(''p'', hw), (''q'', hw), (''dp'', hw), (''dq'', hw), (''qinv'', hw)]"

section \<open>The importer and the assemblers\<close>

text \<open>
  The bodies of the six entry points are not part of the repository: the header declares
  them and documents their contract (a modulus or prime must be exactly its width in bits,
  the secret exponent must be at most the key width, the result is \<open>-1\<close> if the
  input length is not correct and \<open>0\<close> otherwise). The definitions of this
  section are therefore written from sections 4.1 and 4.2 of the specification, one
  function for the two key sizes with the key size \<open>ks\<close> in bits as its first
  argument (1024 or 2048). A raw input buffer is a list of bytes, most significant byte
  first; its declared length is the length of the list.

  The model takes every sentence of section 4.1 on the importer: a declared length
  above the capacity of the field is rejected whatever the content; otherwise leading
  zero bytes are stripped and the effective bit length that remains is compared with
  the expected width, and an all-zero buffer of the byte length of the field is
  accepted. A CRT field of declared length zero is rejected, the default of section 9.
\<close>

text \<open>
  Modelled from the spec: the single error of section 7, reported by code that is not in
  the repository. It is the result \<open>-1\<close> of the header; success is the result
  \<open>0\<close>.
\<close>

datatype error = LengthError

text \<open>
  Modelled from the spec: the two width rules of the importer, whose code is not in the
  repository. \<open>Exact\<close> is the rule for moduli and primes, \<open>Bounded\<close> the rule for
  the secret exponent, the CRT exponents and the CRT coefficient.
\<close>

datatype width_rule = Exact | Bounded

text \<open>
  Modelled from the spec: the stripping of leading zero bytes by the importer, whose code
  is not in the repository.
\<close>

definition strip_leading_zeros :: "u8 list \<Rightarrow> u8 list" where
  "strip_leading_zeros bs = dropWhile (\<lambda>b. b = 0) bs"

text \<open>
  Modelled from the spec: the bit length of the glossary, used by the importer, whose
  code is not in the repository: the position of the most significant set bit of a
  number, counted from 1; 0 for the number 0.
\<close>

fun bit_position :: "nat \<Rightarrow> nat" where
  "bit_position n = (if n = 0 then 0 else Suc (bit_position (n div 2)))"

declare bit_position.simps [simp del]

text \<open>
  Modelled from the spec: the effective bit length of a buffer as the importer, whose
  code is not in the repository, determines it: the position of the most significant set
  bit of the first byte that is left after stripping, plus eight bits for every byte
  after it.
\<close>

definition effective_bits :: "u8 list \<Rightarrow> nat" where
  "effective_bits bs =
     (case strip_leading_zeros bs of
        [] \<Rightarrow> 0
      | b # rest \<Rightarrow> bit_position (unat b) + 8 * length rest)"

text \<open>
  Modelled from the spec: the number a big-endian buffer stands for, most significant
  byte first, as the importer, whose code is not in the repository, reads it.
\<close>

fun be_value :: "u8 list \<Rightarrow> nat" where
  "be_value [] = 0"
| "be_value (b # bs) = unat b * 256 ^ length bs + be_value bs"

text \<open>
  Modelled from the spec: the word array the importer, whose code is not in the
  repository, produces: \<open>cap\<close> words of 32 bits, least significant word first, with
  zero words above the supplied data.
\<close>

definition word_array :: "nat \<Rightarrow> u8 list \<Rightarrow> u32 list" where
  "word_array cap bs = map (\<lambda>i. word_of_nat (be_value bs div 2 ^ (32 * i))) [0..<cap]"

text \<open>
  Modelled from the spec: the largest declared length in bytes that a field of \<open>w\<close>
  bits can represent (128 for a 1024 bit field), checked by the importer, whose code is
  not in the repository.
\<close>

definition capacity_bytes :: "nat \<Rightarrow> nat" where
  "capacity_bytes w = w div 8"

text \<open>
  Modelled from the spec: the all-zero buffer of the edge cases of section 4.1, for the
  importer, whose code is not in the repository.
\<close>

definition all_zero :: "u8 list \<Rightarrow> bool" where
  "all_zero bs = list_all (\<lambda>b. b = 0) bs"

text \<open>
  Modelled from the spec: the width check of the importer, whose code is not in the
  repository: the effective bit length equals the expected width for a fixed width
  field and does not exceed it for a bounded field; an all-zero buffer of the byte
  length of the field is accepted under both rules (under the bounded rule its
  effective bit length, 0, is within the bound already).
\<close>

definition width_ok :: "width_rule \<Rightarrow> nat \<Rightarrow> u8 list \<Rightarrow> bool" where
  "width_ok r w bs =
     (case r of
        Exact \<Rightarrow> effective_bits bs = w \<or> (length bs = capacity_bytes w \<and> all_zero bs)
      | Bounded \<Rightarrow> effective_bits bs \<le> w)"

text \<open>
  Modelled from the spec: the importer
  \<^verbatim>\<open>import(buffer, declared_length, expected_bit_width)\<close> of section 4.1, whose code
  is not in the repository. A buffer whose declared length exceeds the capacity of the
  field is rejected regardless of its content; then the width check decides. The
  importer yields the word array of \<open>w div 32\<close> words, or \<open>LengthError\<close>, the
  result \<open>-1\<close> of the header.
\<close>

definition import_field :: "width_rule \<Rightarrow> nat \<Rightarrow> u8 list \<Rightarrow> error + u32 list" where
  "import_field r w bs =
     (if capacity_bytes w < length bs then Inl LengthError
      else if width_ok r w bs then Inr (word_array (w div 32) bs)
      else Inl LengthError)"

text \<open>
  Modelled from the spec: the assembly of a key from its fields, whose code is not in
  the repository. The fields are imported in order; the first \<open>LengthError\<close> is the
  result of the call, and the word arrays of all fields are its result when every field
  validates.
\<close>

fun import_all :: "(width_rule \<times> nat \<times> u8 list) list \<Rightarrow> error + u32 list list" where
  "import_all [] = Inr []"
| "import_all ((r, w, bs) # fs) =
     (case import_field r w bs of
        Inl e \<Rightarrow> Inl e
      | Inr ws \<Rightarrow> (case import_all fs of Inl e \<Rightarrow> Inl e | Inr wss \<Rightarrow> Inr (ws # wss)))"

text \<open>
  Modelled from the spec: \<^verbatim>\<open>init_public_key\<close> of section 4.2, the body of
  \<^verbatim>\<open>occ_rsa1024_init_pub_key\<close> and \<^verbatim>\<open>occ_rsa2048_init_pub_key\<close>, which is not in
  the repository. The modulus has the exact width of the key.
\<close>

definition init_public_key :: "nat \<Rightarrow> u8 list \<Rightarrow> error + u32 list list" where
  "init_public_key ks n = import_all [(Exact, ks, n)]"

text \<open>
  Modelled from the spec: \<^verbatim>\<open>init_secret_key\<close> of section 4.2, the body of
  \<^verbatim>\<open>occ_rsa1024_init_key\<close> and \<^verbatim>\<open>occ_rsa2048_init_key\<close>, which is not in the
  repository. The modulus has the exact width of the key, the secret exponent at most
  that width.
\<close>

definition init_secret_key :: "nat \<Rightarrow> u8 list \<Rightarrow> u8 list \<Rightarrow> error + u32 list list" where
  "init_secret_key ks n d = import_all [(Exact, ks, n), (Bounded, ks, d)]"

text \<open>
  Modelled from the spec: \<^verbatim>\<open>init_crt_secret_key\<close> of section 4.2, the body of
  \<^verbatim>\<open>occ_rsa1024_init_crt_key\<close> and \<^verbatim>\<open>occ_rsa2048_init_crt_key\<close>, which is not in
  the repository. The primes have exactly half the width of the key, the CRT exponents
  and the coefficient at most half the width. A field of declared length zero is a
  \<open>LengthError\<close>, the default that section 9 sets for the CRT fields.
\<close>

definition init_crt_secret_key ::
  "nat \<Rightarrow> u8 list \<Rightarrow> u8 list \<Rightarrow> u8 list \<Rightarrow> u8 list \<Rightarrow> u8 list \<Rightarrow> error + u32 list list" where
  "init_crt_secret_key ks p q dp dq qinv =
     (if p = [] \<or> q = [] \<or> dp = [] \<or> dq = [] \<or> qinv = [] then Inl LengthError
      else import_all [(Exact, ks div 2, p), (Exact, ks div 2, q),
                       (Bounded, ks div 2, dp), (Bounded, ks div 2, dq),
                       (Bounded, ks div 2, qinv)])"

section \<open>Bit lengths and big-endian values\<close>

text \<open>
  The effective bit length of the model is computed on the bytes. The lemmas of this
  section relate it to the number the buffer stands for: it is the position of the most
  significant set bit of that number, and leading zero bytes do not change it.
\<close>

lemma bit_position_0 [simp]: "bit_position 0 = 0"
  by (simp add: bit_position.simps)

lemma bit_position_pos: "0 < n \<Longrightarrow> bit_position n = Suc (bit_position (n div 2))"
  by (subst bit_position.simps) simp

lemma bit_position_eq_0 [simp]: "bit_position n = 0 \<longleftrightarrow> n = 0"
  by (subst bit_position.simps) simp

lemma bit_position_le: "bit_position n \<le> k \<longleftrightarrow> n < 2 ^ k"
proof (induction k arbitrary: n)
  case 0
  show ?case by simp
next
  case (Suc k)
  show ?case
  proof (cases "n = 0")
    case True
    then show ?thesis by simp
  next
    case False
    then have "bit_position n \<le> Suc k \<longleftrightarrow> bit_position (n div 2) \<le> k"
      by (simp add: bit_position_pos)
    also have "\<dots> \<longleftrightarrow> n div 2 < 2 ^ k" by (rule Suc.IH)
    also have "\<dots> \<longleftrightarrow> n < 2 ^ Suc k" by auto
    finally show ?thesis .
  qed
qed

lemma bit_position_shift:
  "0 < x \<Longrightarrow> r < 2 ^ m \<Longrightarrow> bit_position (x * 2 ^ m + r) = bit_position x + m"
proof (induction m arbitrary: r)
  case 0
  then show ?case by simp
next
  case (Suc m)
  have half: "(x * 2 ^ Suc m + r) div 2 = x * 2 ^ m + r div 2"
    by simp
  have "r div 2 < 2 ^ m" using Suc.prems(2) by auto
  then have "bit_position (x * 2 ^ m + r div 2) = bit_position x + m"
    using Suc.IH Suc.prems(1) by blast
  moreover have "0 < x * 2 ^ Suc m + r" using Suc.prems(1) by simp
  ultimately show ?case
    using bit_position_pos [of "x * 2 ^ Suc m + r"] half by simp
qed

lemma be_value_less: "be_value bs < 256 ^ length bs"
proof (induction bs)
  case Nil
  show ?case by simp
next
  case (Cons b bs)
  have "unat b < 256" using unsigned_less [of b] by simp
  then have "unat b * 256 ^ length bs + be_value bs < (unat b + 1) * 256 ^ length bs"
    using Cons.IH by simp
  also have "\<dots> \<le> 256 * 256 ^ length bs"
    using \<open>unat b < 256\<close> by (intro mult_le_mono1) simp
  finally show ?case by simp
qed

lemma be_value_strip [simp]: "be_value (strip_leading_zeros bs) = be_value bs"
  by (induction bs) (simp_all add: strip_leading_zeros_def)

lemma strip_replicate [simp]:
  "strip_leading_zeros (replicate z 0 @ bs) = strip_leading_zeros bs"
  by (induction z) (simp_all add: strip_leading_zeros_def)

lemma effective_bits_value: "effective_bits bs = bit_position (be_value bs)"
proof (cases "strip_leading_zeros bs")
  case Nil
  moreover have "be_value bs = be_value (strip_leading_zeros bs)" by simp
  ultimately have "be_value bs = 0" by (simp del: be_value_strip)
  then show ?thesis using Nil by (simp add: effective_bits_def)
next
  case (Cons b rest)
  then have "b \<in> set (strip_leading_zeros bs)" by simp
  have "b \<noteq> 0"
    using Cons hd_dropWhile [of "\<lambda>b. b = 0" bs] by (auto simp: strip_leading_zeros_def)
  then have pos: "0 < unat b" by (simp add: unat_gt_0)
  have "256 ^ length rest = (2::nat) ^ (8 * length rest)"
    by (simp add: power_mult)
  then have "bit_position (unat b * 256 ^ length rest + be_value rest)
               = bit_position (unat b) + 8 * length rest"
    using bit_position_shift [OF pos, of "be_value rest" "8 * length rest"]
      be_value_less [of rest] by simp
  moreover have "be_value bs = unat b * 256 ^ length rest + be_value rest"
    using be_value_strip [of bs] Cons by simp
  ultimately show ?thesis using Cons by (simp add: effective_bits_def)
qed


lemma be_value_replicate [simp]: "be_value (replicate z 0 @ bs) = be_value bs"
  using be_value_strip [of "replicate z 0 @ bs"] be_value_strip [of bs]
  by (simp del: be_value_strip)

lemma effective_bits_replicate: "effective_bits (replicate z 0 @ bs) = effective_bits bs"
  by (simp add: effective_bits_def)

lemma effective_bits_zeros: "effective_bits (replicate z 0) = 0"
  using effective_bits_replicate [of z "[]"] by (simp add: effective_bits_def strip_leading_zeros_def)

lemma effective_bits_Cons:
  "b \<noteq> 0 \<Longrightarrow> effective_bits (b # rest) = bit_position (unat b) + 8 * length rest"
  by (simp add: effective_bits_def strip_leading_zeros_def)

lemma effective_bits_le: "effective_bits bs \<le> w \<longleftrightarrow> be_value bs < 2 ^ w"
  by (simp add: effective_bits_value bit_position_le)

lemma effective_bits_eq:
  assumes "0 < w"
  shows "effective_bits bs = w \<longleftrightarrow> 2 ^ (w - 1) \<le> be_value bs \<and> be_value bs < 2 ^ w"
proof -
  have "effective_bits bs = w \<longleftrightarrow> effective_bits bs \<le> w \<and> \<not> effective_bits bs \<le> w - 1"
    using assms by auto
  also have "\<dots> \<longleftrightarrow> be_value bs < 2 ^ w \<and> \<not> be_value bs < 2 ^ (w - 1)"
    by (simp only: effective_bits_le)
  finally show ?thesis by auto
qed

lemma word_array_replicate: "word_array c (replicate z 0 @ bs) = word_array c bs"
  by (simp add: word_array_def)

lemma be_value_eq_0: "be_value bs = 0 \<longleftrightarrow> all_zero bs"
  by (induction bs) (auto simp: all_zero_def unat_eq_0)

lemma all_zero_bits: "all_zero bs \<longleftrightarrow> effective_bits bs = 0"
  by (simp add: effective_bits_value be_value_eq_0)

lemma all_zero_replicate: "all_zero (replicate z 0)"
  by (simp add: all_zero_def list_all_iff)

lemma all_zero_append: "all_zero (xs @ ys) \<longleftrightarrow> all_zero xs \<and> all_zero ys"
  by (simp add: all_zero_def)

lemma effective_bits_le_length: "effective_bits bs \<le> 8 * length bs"
proof -
  have "be_value bs < 2 ^ (8 * length bs)"
    using be_value_less [of bs] by (simp add: power_mult)
  then show ?thesis by (simp add: effective_bits_le)
qed

lemma capacity_bits: "8 dvd w \<Longrightarrow> 8 * capacity_bytes w = w"
  by (auto simp: capacity_bytes_def)

lemma import_field_Exact:
  assumes "8 dvd w"
  shows "import_field Exact w bs =
     (if length bs = capacity_bytes w \<and> (effective_bits bs = w \<or> all_zero bs)
      then Inr (word_array (w div 32) bs) else Inl LengthError)"
proof -
  have full: "length bs = capacity_bytes w"
    if "length bs \<le> capacity_bytes w" "effective_bits bs = w"
  proof -
    have "w \<le> 8 * length bs"
      using effective_bits_le_length [of bs] that(2) by simp
    then show ?thesis
      using that(1) capacity_bits [OF assms] by simp
  qed
  show ?thesis
  proof (cases "capacity_bytes w < length bs")
    case True
    then show ?thesis by (simp add: import_field_def)
  next
    case False
    then have "length bs \<le> capacity_bytes w" by simp
    then show ?thesis
      using full by (auto simp: import_field_def width_ok_def)
  qed
qed

lemma import_field_Bounded:
  assumes "8 dvd w"
  shows "import_field Bounded w bs =
     (if length bs \<le> capacity_bytes w
      then Inr (word_array (w div 32) bs) else Inl LengthError)"
proof -
  have "effective_bits bs \<le> w" if "length bs \<le> capacity_bytes w"
    using effective_bits_le_length [of bs] that capacity_bits [OF assms] by simp
  then show ?thesis
    by (auto simp: import_field_def width_ok_def)
qed

lemma bits_over_capacity:
  assumes "8 dvd w" and "w < effective_bits bs"
  shows "capacity_bytes w < length bs"
  using effective_bits_le_length [of bs] assms(2) capacity_bits [OF assms(1)] by simp

lemma key_size_dvd:
  "ks = 1024 \<or> ks = 2048 \<Longrightarrow> 8 dvd ks \<and> 8 dvd ks div 2 \<and> 0 < ks div 2"
  for ks :: nat
  by auto

lemma init_public_key_eq:
  assumes "8 dvd ks"
  shows "init_public_key ks n =
     (if length n = capacity_bytes ks \<and> (effective_bits n = ks \<or> all_zero n)
      then Inr [word_array (ks div 32) n] else Inl LengthError)"
  by (simp add: init_public_key_def import_field_Exact [OF assms])

lemma init_secret_key_eq:
  assumes "8 dvd ks"
  shows "init_secret_key ks n d =
     (if (length n = capacity_bytes ks \<and> (effective_bits n = ks \<or> all_zero n)) \<and>
         length d \<le> capacity_bytes ks
      then Inr [word_array (ks div 32) n, word_array (ks div 32) d]
      else Inl LengthError)"
  by (simp add: init_secret_key_def import_field_Exact [OF assms]
      import_field_Bounded [OF assms])

lemma init_crt_secret_key_eq:
  assumes "8 dvd ks div 2" and "0 < ks div 2"
  shows "init_crt_secret_key ks p q dp dq qinv =
     (if (length p = capacity_bytes (ks div 2) \<and>
            (effective_bits p = ks div 2 \<or> all_zero p)) \<and>
         (length q = capacity_bytes (ks div 2) \<and>
            (effective_bits q = ks div 2 \<or> all_zero q)) \<and>
         (0 < length dp \<and> length dp \<le> capacity_bytes (ks div 2)) \<and>
         (0 < length dq \<and> length dq \<le> capacity_bytes (ks div 2)) \<and>
         (0 < length qinv \<and> length qinv \<le> capacity_bytes (ks div 2))
      then Inr [word_array (ks div 2 div 32) p, word_array (ks div 2 div 32) q,
                word_array (ks div 2 div 32) dp, word_array (ks div 2 div 32) dq,
                word_array (ks div 2 div 32) qinv]
      else Inl LengthError)"
proof -
  have "0 < capacity_bytes (ks div 2)"
    using capacity_bits [OF assms(1)] assms(2) by (cases "capacity_bytes (ks div 2)") auto
  then have "p \<noteq> []" if "length p = capacity_bytes (ks div 2)" for p :: "u8 list"
    using that by auto
  then show ?thesis
    by (auto simp: init_crt_secret_key_def import_field_Exact [OF assms(1)]
        import_field_Bounded [OF assms(1)])
qed

lemma leading_zeros_rejected:
  assumes "8 dvd w" and "0 < z" and "\<not> all_zero n"
  shows "import_field Exact w (replicate z 0 @ n) = Inl LengthError"
proof -
  have "effective_bits (replicate z 0 @ n) \<noteq> w"
    if "length (replicate z 0 @ n) = capacity_bytes w"
  proof -
    have "effective_bits (replicate z 0 @ n) \<le> 8 * length n"
      using effective_bits_le_length [of n] by (simp add: effective_bits_replicate)
    also have "\<dots> < 8 * capacity_bytes w"
      using that assms(2) by simp
    finally show ?thesis
      using capacity_bits [OF assms(1)] by simp
  qed
  moreover have "\<not> all_zero (replicate z 0 @ n)"
    using assms(3) by (simp add: all_zero_append)
  ultimately show ?thesis
    by (simp add: import_field_Exact [OF assms(1)])
qed

lemma one_bit_off_rejected:
  assumes "8 dvd w" and "effective_bits bs + 1 = w \<or> effective_bits bs = w + 1"
  shows "import_field Exact w bs = Inl LengthError"
proof -
  have "effective_bits bs \<noteq> w" using assms(2) by auto
  moreover have "effective_bits bs \<noteq> 0"
  proof
    assume "effective_bits bs = 0"
    with assms(2) have "w = 1" by simp
    with assms(1) show False by simp
  qed
  ultimately show ?thesis
    by (simp add: import_field_Exact [OF assms(1)] all_zero_bits)
qed

lemma exact_one_bit_off:
  assumes "8 dvd w" and "effective_bits bs + 1 = w \<or> effective_bits bs = w + 1"
  shows "\<not> (length bs = capacity_bytes w \<and> (effective_bits bs = w \<or> all_zero bs))"
  using one_bit_off_rejected [OF assms] import_field_Exact [OF assms(1), of bs]
  by (auto split: if_splits)

lemma exact_leading_zeros:
  assumes "8 dvd w" and "0 < z" and "\<not> all_zero n"
  shows "\<not> (length (replicate z 0 @ n) = capacity_bytes w \<and>
            (effective_bits (replicate z 0 @ n) = w \<or> all_zero (replicate z 0 @ n)))"
  using leading_zeros_rejected [OF assms]
    import_field_Exact [OF assms(1), of "replicate z 0 @ n"]
  by (auto split: if_splits)

lemma effective_bits_zero_Cons: "effective_bits (0 # bs) = effective_bits bs"
  by (simp add: effective_bits_def strip_leading_zeros_def)

lemma not_all_zero_Cons: "b \<noteq> 0 \<Longrightarrow> \<not> all_zero (b # bs)"
  by (simp add: all_zero_def)

lemma bit_position_128: "bit_position 128 = 8"
  by (simp add: bit_position.simps)

lemma bit_position_64: "bit_position 64 = 7"
  by (simp add: bit_position.simps)

lemma bit_position_1: "bit_position (Suc 0) = 1"
  by (simp add: bit_position.simps)


lemma word_array_zeros: "word_array c (replicate z 0) = replicate c 0"
proof -
  have "be_value (replicate z 0 @ []) = 0" by (simp only: be_value_replicate be_value.simps)
  then show ?thesis by (simp add: word_array_def map_replicate_const)
qed

section \<open>The structure types\<close>

text \<open>
  Claim C1, as the specification states it: the CRT secret key structure is exactly two
  primes, two CRT exponents and one coefficient, 16 words each for 1024 bit keys and 32
  words each for 2048 bit keys, with no other numeric member.

  The header declares one member more. Both CRT structures start with the modulus
  \<open>n\<close>, of full key width, which the layout of the specification does not have.
\<close>

theorem crt_key_layout_counterexample:
  "occ_rsa1024_crt_key \<noteq> spec_crt_key 16 \<and>
   occ_rsa2048_crt_key \<noteq> spec_crt_key 32 \<and>
   member_words occ_rsa1024_crt_key ''n'' = Some 32 \<and>
   member_words (spec_crt_key 16) ''n'' = None \<and>
   member_words occ_rsa2048_crt_key ''n'' = Some 64 \<and>
   member_words (spec_crt_key 32) ''n'' = None"
  by (simp add: occ_rsa1024_crt_key_def occ_rsa2048_crt_key_def spec_crt_key_def
      member_words_def)

text \<open>
  Claim C1, amended: at each key size the CRT secret key structure is the modulus
  \<open>n\<close> of full key width (32 words for 1024 bit keys, 64 words for 2048 bit keys)
  followed by two primes, two CRT exponents and one coefficient, each of half key width
  (16 words, doubled to 32 words), and it has no other member. The structure therefore
  holds 112 words at 1024 bits and 224 words at 2048 bits, and every element count of the
  2048 bit structure is twice that of the 1024 bit one.
\<close>

theorem crt_key_layout:
  "occ_rsa1024_crt_key = (''n'', 32) # spec_crt_key 16 \<and>
   occ_rsa2048_crt_key = (''n'', 64) # spec_crt_key 32 \<and>
   occ_rsa2048_crt_key = map (\<lambda>(m, w). (m, 2 * w)) occ_rsa1024_crt_key \<and>
   sizeof_words occ_rsa1024_crt_key = 32 + 5 * 16 \<and>
   sizeof_words occ_rsa2048_crt_key = 64 + 5 * 32 \<and>
   map (member_bits occ_rsa1024_crt_key) [''n'', ''p'', ''q'', ''dp'', ''dq'', ''qinv'']
     = [Some 1024, Some 512, Some 512, Some 512, Some 512, Some 512] \<and>
   map (member_bits occ_rsa2048_crt_key) [''n'', ''p'', ''q'', ''dp'', ''dq'', ''qinv'']
     = [Some 2048, Some 1024, Some 1024, Some 1024, Some 1024, Some 1024]"
  by (simp add: occ_rsa1024_crt_key_def occ_rsa2048_crt_key_def spec_crt_key_def
      sizeof_words_def member_bits_def member_words_def)

section \<open>Fixed width fields\<close>




section \<open>Bounded fields\<close>




section \<open>The public exponent\<close>

text \<open>
  Claim C9: for the public and the plain secret keys of both sizes the public exponent is
  the constant 65537; no entry point takes it as a parameter and no key structure stores
  it.

  The macro is \<open>2 ^ 16 + 1\<close>. A public key structure has the modulus as its only
  member, a plain secret key structure the modulus and the secret exponent \<open>d\<close>;
  the entry points for them take the buffers \<open>n\<close>, and \<open>n\<close> and \<open>d\<close>, each with
  its length, besides the structure to fill. No structure of the header has a member and
  no prototype a parameter named \<open>e\<close>, the name the header's comments give the public
  exponent.
\<close>

theorem public_exponent_fixed:
  "PUB_EXP = 65537 \<and> PUB_EXP = 2 ^ 16 + 1 \<and>
   member_names occ_rsa1024_pub_key = [''n''] \<and>
   member_names occ_rsa2048_pub_key = [''n''] \<and>
   member_names occ_rsa1024_key = [''n'', ''d''] \<and>
   member_names occ_rsa2048_key = [''n'', ''d''] \<and>
   param_names occ_rsa1024_init_pub_key = [''k'', ''n'', ''nlen''] \<and>
   param_names occ_rsa2048_init_pub_key = [''k'', ''n'', ''nlen''] \<and>
   param_names occ_rsa1024_init_key = [''k'', ''n'', ''nlen'', ''d'', ''dlen''] \<and>
   param_names occ_rsa2048_init_key = [''k'', ''n'', ''nlen'', ''d'', ''dlen''] \<and>
   list_all (\<lambda>s. ''e'' \<notin> set (member_names s)) key_structs \<and>
   list_all (\<lambda>f. ''e'' \<notin> set (param_names f)) entry_points"
  by (simp add: PUB_EXP_def member_names_def param_names_def key_structs_def
      entry_points_def
      occ_rsa1024_pub_key_def occ_rsa1024_key_def occ_rsa1024_crt_key_def
      occ_rsa2048_pub_key_def occ_rsa2048_key_def occ_rsa2048_crt_key_def
      occ_rsa1024_init_pub_key_def occ_rsa1024_init_key_def occ_rsa1024_init_crt_key_def
      occ_rsa2048_init_pub_key_def occ_rsa2048_init_key_def occ_rsa2048_init_crt_key_def)

section \<open>The modulus of a CRT key\<close>

text \<open>
  Claim C10: each CRT secret key structure has, besides the five half width CRT members,
  a modulus member \<open>n\<close> of full key width (32 words at 1024 bits, 64 words at 2048
  bits), while the entry point that fills it takes no modulus argument; so the caller
  does not supply the value of \<open>n\<close>.

  The buffers of \<^verbatim>\<open>init_crt_key\<close> are \<open>p\<close>, \<open>q\<close>, \<open>dp\<close>, \<open>dq\<close> and
  \<open>qinv\<close>; no parameter is named \<open>n\<close> or \<open>nlen\<close>, and \<open>n\<close> is the one member
  of the structure with no buffer of its name. For the plain secret key, in contrast,
  every member has its buffer.
\<close>

theorem crt_modulus_not_supplied:
  "member_words occ_rsa1024_crt_key ''n'' = Some 32 \<and>
   member_bits occ_rsa1024_crt_key ''n'' = Some 1024 \<and>
   member_words occ_rsa2048_crt_key ''n'' = Some 64 \<and>
   member_bits occ_rsa2048_crt_key ''n'' = Some 2048 \<and>
   buffer_params occ_rsa1024_init_crt_key = [''p'', ''q'', ''dp'', ''dq'', ''qinv''] \<and>
   buffer_params occ_rsa2048_init_crt_key = [''p'', ''q'', ''dp'', ''dq'', ''qinv''] \<and>
   ''n'' \<notin> set (param_names occ_rsa1024_init_crt_key) \<and>
   ''nlen'' \<notin> set (param_names occ_rsa1024_init_crt_key) \<and>
   ''n'' \<notin> set (param_names occ_rsa2048_init_crt_key) \<and>
   ''nlen'' \<notin> set (param_names occ_rsa2048_init_crt_key) \<and>
   unsupplied_members occ_rsa1024_crt_key occ_rsa1024_init_crt_key = [''n''] \<and>
   unsupplied_members occ_rsa2048_crt_key occ_rsa2048_init_crt_key = [''n''] \<and>
   unsupplied_members occ_rsa1024_key occ_rsa1024_init_key = [] \<and>
   unsupplied_members occ_rsa2048_key occ_rsa2048_init_key = []"
  by (simp add: member_words_def member_bits_def buffer_params_def param_names_def
      unsupplied_members_def member_names_def
      occ_rsa1024_key_def occ_rsa1024_crt_key_def
      occ_rsa2048_key_def occ_rsa2048_crt_key_def
      occ_rsa1024_init_key_def occ_rsa1024_init_crt_key_def
      occ_rsa2048_init_key_def occ_rsa2048_init_crt_key_def)

end
